theory Spec2Isabelle
  imports Main "HOL-Library.Sublist"
begin

section \<open>Round 8 match payouts: the \<open>set_payouts\<close> path of \<open>Command.handle\<close>\<close>

text \<open>
  The development embeds the part of \<open>round8_payouts.py\<close> that sets payouts on chain
  (source lines 208 to 295): the payout mapping, \<open>chunks\<close>, the construction of the
  transaction arguments, the broadcast retry loop, the confirmation poll and the update of
  the match records.
\<close>

subsection \<open>Errors and outcomes\<close>

text \<open>
  Every exception that the embedded code can raise is a value. \<open>BroadcastError s\<close> is the
  exception of \<open>sendRawTransaction\<close> re-raised by \<open>raise e\<close>, with \<open>s = str(e)\<close>;
  \<open>RangeStepZero\<close> is the \<open>ValueError\<close> of \<open>range(0, len(lst), 0)\<close>;
  \<open>FloatOverflow\<close> and \<open>FloatNaN\<close> are the \<open>OverflowError\<close> and \<open>ValueError\<close> of
  \<open>int()\<close> on an infinity and on a NaN; \<open>CannotSetMapping\<close> is the exception of source
  line 272; \<open>UnboundTxId\<close> is the \<open>UnboundLocalError\<close> of reading \<open>tx_id\<close> before any
  chunk has assigned it.
\<close>

datatype error =
    BroadcastError string
  | RangeStepZero
  | FloatOverflow
  | FloatNaN
  | CannotSetMapping
  | UnboundTxId

subsection \<open>The batcher: \<open>chunks\<close>\<close>

text \<open>
  \<open>range(0, stop, step)\<close> for \<open>stop \<ge> 0\<close>: it raises for \<open>step = 0\<close>, is empty for
  a negative step, and otherwise lists \<open>0, step, 2 * step, \<dots>\<close> below \<open>stop\<close>.
\<close>

definition range0 :: "nat \<Rightarrow> int \<Rightarrow> error + nat list" where
  "range0 stop step =
     (if step = 0 then Inl RangeStepZero
      else if step < 0 then Inr []
      else Inr (map (\<lambda>k. k * nat step) [0 ..< (stop + nat step - 1) div nat step]))"

text \<open>The slice \<open>lst[i:j]\<close> for \<open>0 \<le> i \<le> j\<close>; Python clamps both ends to the list.\<close>

definition slice :: "'a list \<Rightarrow> nat \<Rightarrow> nat \<Rightarrow> 'a list" where
  "slice lst i j = take (j - i) (drop i lst)"

text \<open>
  \<open>chunks(lst, n)\<close>: \<open>for i in range(0, len(lst), n): yield lst[i:i + n]\<close>. The generator is
  consumed once, in order, by the \<open>for\<close> loop at source line 232, so it is the list of
  its values; the \<open>ValueError\<close> of a zero step surfaces when that loop starts.
\<close>

definition chunks :: "'a list \<Rightarrow> int \<Rightarrow> error + 'a list list" where
  "chunks lst n =
     (case range0 (length lst) n of
        Inl e \<Rightarrow> Inl e
      | Inr is \<Rightarrow> Inr (map (\<lambda>i. slice lst i (i + nat n)) is))"

subsection \<open>Python floats and the gas price\<close>

text \<open>
  A Python float is an IEEE 754 binary64 value. \<open>Fin m e\<close> is the finite value
  \<open>m * 2 ^ e\<close> (a zero of either sign is \<open>Fin 0 e\<close>: \<open>int()\<close> maps both to \<open>0\<close>),
  \<open>Infinity neg\<close> an infinity with its sign, \<open>NaN\<close> a NaN.
\<close>

datatype pyfloat = Fin int int | Infinity bool | NaN

fun bit_length :: "nat \<Rightarrow> nat" where
  "bit_length n = (if n = 0 then 0 else Suc (bit_length (n div 2)))"

declare bit_length.simps [simp del]

text \<open>\<open>m / 2 ^ k\<close> rounded to the nearest integer, ties to the even one.\<close>

definition round_half_even :: "int \<Rightarrow> nat \<Rightarrow> int" where
  "round_half_even m k =
     (if k = 0 then m
      else let q = m div 2 ^ k; r = m mod 2 ^ k; h = 2 ^ (k - 1)
           in if h < r \<or> (r = h \<and> odd q) then q + 1 else q)"

text \<open>
  The binary64 value nearest to \<open>m * 2 ^ e\<close>: 53 significant bits, the least exponent
  of a unit in the last place \<open>-1074\<close> (gradual underflow), an infinity from \<open>2 ^ 1024\<close> on.
\<close>

definition binary64 :: "int \<Rightarrow> int \<Rightarrow> pyfloat" where
  "binary64 m e =
     (let k = max (int (bit_length (nat \<bar>m\<bar>)) - 53) (- 1074 - e);
          m' = (if 0 < k then round_half_even m (nat k) else m);
          e' = (if 0 < k then e + k else e)
      in if m' = 0 then Fin 0 0
         else if 1024 < int (bit_length (nat \<bar>m'\<bar>)) + e' then Infinity (m' < 0)
         else Fin m' e')"

text \<open>Float multiplication \<open>x * y\<close>: the exact product, rounded once.\<close>

fun fmul :: "pyfloat \<Rightarrow> pyfloat \<Rightarrow> pyfloat" where
  "fmul NaN y = NaN"
| "fmul x NaN = NaN"
| "fmul (Infinity s) (Infinity t) = Infinity (s \<noteq> t)"
| "fmul (Infinity s) (Fin m e) = (if m = 0 then NaN else Infinity (s \<noteq> (m < 0)))"
| "fmul (Fin m e) (Infinity s) = (if m = 0 then NaN else Infinity (s \<noteq> (m < 0)))"
| "fmul (Fin m1 e1) (Fin m2 e2) = binary64 (m1 * m2) (e1 + e2)"

text \<open>\<open>int(x)\<close> truncates towards zero and raises on an infinity and on a NaN.\<close>

fun py_int :: "pyfloat \<Rightarrow> error + int" where
  "py_int NaN = Inl FloatNaN"
| "py_int (Infinity s) = Inl FloatOverflow"
| "py_int (Fin m e) =
     Inr (if 0 \<le> e then m * 2 ^ nat e else sgn m * (\<bar>m\<bar> div 2 ^ nat (- e)))"

text \<open>
  The float literals \<open>1.4\<close> (\<open>0x1.6666666666666p+0\<close>) and \<open>1.6\<close>
  (\<open>0x1.999999999999ap+0\<close>), and \<open>10**9\<close> converted to a float by \<open>float * int\<close>.
\<close>

definition multiplier_1_4 :: pyfloat where
  "multiplier_1_4 = Fin 6305039478318694 (- 52)"

definition multiplier_1_6 :: pyfloat where
  "multiplier_1_6 = Fin 7205759403792794 (- 52)"

definition giga :: pyfloat where
  "giga = Fin 1000000000 0"

text \<open>
  \<open>int(float(p) * 10**9 * multiplier)\<close>, where \<open>p\<close> already is the float
  \<open>float(recommend_min_gas_price_to_confirm_in_time(1))\<close>.
\<close>

definition gas_price :: "pyfloat \<Rightarrow> pyfloat \<Rightarrow> error + int" where
  "gas_price p multiplier = py_int (fmul (fmul p giga) multiplier)"

subsection \<open>Transactions, events and the outside world\<close>

text \<open>
  \<open>tx_args\<close> is the dictionary of source lines 234 to 238; \<open>buildTransaction\<close> copies
  its three entries into the transaction next to the call data
  \<open>setPayouts(payout_mapping)\<close>, kept as the chunk itself; \<open>signTransaction\<close> pairs the
  transaction with the key.
\<close>

record tx_args =
  nonce :: nat
  gas :: nat
  gasPrice :: int

record 'p tx =
  tx_nonce :: nat
  tx_gas :: nat
  tx_gasPrice :: int
  tx_data :: "'p list"

datatype 'p signed = Signed "'p tx" string

definition WAIT_TIME_BETWEEN_TXS :: nat where
  "WAIT_TIME_BETWEEN_TXS = 15"

text \<open>
  What the script does to the outside world, in order. Each event carries the position
  of the chunk it belongs to in the output of \<open>chunks\<close> (a ghost index: the source has
  no counter of chunks), and the answer it got.
\<close>

datatype 'p action =
    GetTransactionCount nat
  | RecommendGasPrice pyfloat
  | BuildTransaction "'p tx"
  | SignTransaction "'p signed"
  | SendRawTransaction "'p signed" "string + string"
  | Sleep nat
  | HasTxMined string bool

type_synonym 'p event = "nat \<times> 'p action"

text \<open>
  Modelled from the spec: the collaborators \<open>recommend_min_gas_price_to_confirm_in_time\<close>,
  \<open>getTransactionCount\<close>, \<open>sendRawTransaction\<close> and \<open>has_tx_mined\<close> are not part of the
  source file; section 6 of the specification gives their interfaces
  (\<open>-> price\<close>, \<open>-> nonce\<close>, \<open>-> txHash | Error\<close>, \<open>-> bool\<close>). The world holds their
  answers. The oracle and the transaction count always answer: \<open>prices k\<close> is the float
  of the \<open>k\<close>-th recommendation and \<open>counts k\<close> the \<open>k\<close>-th transaction count read.
  The answers to broadcasts and to confirmation polls are the finite lists \<open>sends\<close> and
  \<open>mined\<close> of the answers given so far: \<open>Inl s\<close> is an exception with \<open>str(e) = s\<close>,
  \<open>Inr h\<close> the accepted hash as rendered by \<open>.hex()\<close>. A loop that has used up the
  answers given so far is still running: its outcome is \<open>Pending\<close>.
\<close>

record 'p world =
  prices :: "nat \<Rightarrow> pyfloat"
  price_calls :: nat
  counts :: "nat \<Rightarrow> nat"
  count_calls :: nat
  sends :: "(string + string) list"
  mined :: "bool list"
  trace :: "'p event list"

datatype 'a outcome = Done 'a | Raised error | Pending

definition emit :: "nat \<Rightarrow> 'p action \<Rightarrow> 'p world \<Rightarrow> 'p world" where
  "emit i a w = w\<lparr>trace := trace w @ [(i, a)]\<rparr>"

definition sleep :: "nat \<Rightarrow> nat \<Rightarrow> 'p world \<Rightarrow> 'p world" where
  "sleep i secs w = emit i (Sleep secs) w"

definition getTransactionCount :: "nat \<Rightarrow> 'p world \<Rightarrow> nat \<times> 'p world" where
  "getTransactionCount i w =
     (let n = counts w (count_calls w)
      in (n, emit i (GetTransactionCount n) (w\<lparr>count_calls := Suc (count_calls w)\<rparr>)))"

definition float_recommend_min_gas_price :: "nat \<Rightarrow> 'p world \<Rightarrow> pyfloat \<times> 'p world" where
  "float_recommend_min_gas_price i w =
     (let p = prices w (price_calls w)
      in (p, emit i (RecommendGasPrice p) (w\<lparr>price_calls := Suc (price_calls w)\<rparr>)))"

definition buildTransaction :: "nat \<Rightarrow> 'p list \<Rightarrow> tx_args \<Rightarrow> 'p world \<Rightarrow> 'p tx \<times> 'p world" where
  "buildTransaction i payout_mapping a w =
     (let t = \<lparr>tx_nonce = nonce a, tx_gas = gas a, tx_gasPrice = gasPrice a,
                tx_data = payout_mapping\<rparr>
      in (t, emit i (BuildTransaction t) w))"

definition signTransaction :: "nat \<Rightarrow> 'p tx \<Rightarrow> string \<Rightarrow> 'p world \<Rightarrow> 'p signed \<times> 'p world" where
  "signTransaction i t from_pk w = (Signed t from_pk, emit i (SignTransaction (Signed t from_pk)) w)"

subsection \<open>The broadcast retry loop\<close>

text \<open>The variables of the loop at source lines 243 to 269 that outlive an iteration.\<close>

record 'p loop_state =
  args :: tx_args
  signed_tx :: "'p signed"
  counter :: nat

definition underpriced :: "string \<Rightarrow> bool" where
  "underpriced s = sublist ''replacement transaction underpriced'' s"

definition nonce_too_low :: "string \<Rightarrow> bool" where
  "nonce_too_low s = sublist ''nonce too low'' s"

text \<open>
  The \<open>except\<close> block, source lines 250 to 269, for an exception with \<open>str(e) = s\<close>.
  \<open>int()\<close> can raise inside the block; that exception leaves the loop as well.
\<close>

definition on_exception ::
  "string \<Rightarrow> nat \<Rightarrow> 'p list \<Rightarrow> string \<Rightarrow> 'p loop_state \<Rightarrow> 'p world
     \<Rightarrow> 'p loop_state outcome \<times> 'p world" where
  "on_exception from_pk i payout_mapping s st w =
     (let st1 = st\<lparr>counter := counter st + 1\<rparr>
      in if underpriced s then
           (let w1 = sleep i WAIT_TIME_BETWEEN_TXS w;
                (p, w2) = float_recommend_min_gas_price i w1
            in case gas_price p multiplier_1_6 of
                 Inl e \<Rightarrow> (Raised e, w2)
               | Inr g \<Rightarrow>
                   (let a = (args st1)\<lparr>gasPrice := g\<rparr>;
                        (t, w3) = buildTransaction i payout_mapping a w2;
                        (sg, w4) = signTransaction i t from_pk w3
                    in (Done (st1\<lparr>args := a, signed_tx := sg\<rparr>), w4)))
         else if nonce_too_low s then
           (let w1 = sleep i WAIT_TIME_BETWEEN_TXS w;
                (n, w2) = getTransactionCount i w1;
                a = (args st1)\<lparr>nonce := n\<rparr>;
                (t, w3) = buildTransaction i payout_mapping a w2;
                (sg, w4) = signTransaction i t from_pk w3
            in (Done (st1\<lparr>args := a, signed_tx := sg\<rparr>), w4))
         else (Raised (BroadcastError s), w))"

text \<open>
  \<open>while not success\<close>: one broadcast per iteration. It returns \<open>tx_id\<close> and the final
  loop variables.
\<close>

function while_not_success ::
  "string \<Rightarrow> nat \<Rightarrow> 'p list \<Rightarrow> 'p loop_state \<Rightarrow> 'p world
     \<Rightarrow> (string \<times> 'p loop_state) outcome \<times> 'p world" where
  "while_not_success from_pk i payout_mapping st w =
     (case sends w of
        [] \<Rightarrow> (Pending, w)
      | r # rs \<Rightarrow>
          (let w1 = emit i (SendRawTransaction (signed_tx st) r) (w\<lparr>sends := rs\<rparr>)
           in case r of
                Inr tx_id \<Rightarrow> (Done (tx_id, st), w1)
              | Inl s \<Rightarrow>
                  (case on_exception from_pk i payout_mapping s st w1 of
                     (Done st', w2) \<Rightarrow> while_not_success from_pk i payout_mapping st' w2
                   | (Raised e, w2) \<Rightarrow> (Raised e, w2)
                   | (Pending, w2) \<Rightarrow> (Pending, w2))))"
  by pat_completeness auto
termination
  by (relation "measure (\<lambda>(from_pk, i, payout_mapping, st, w). length (sends w))")
     (auto simp: on_exception_def emit_def sleep_def float_recommend_min_gas_price_def
        getTransactionCount_def buildTransaction_def signTransaction_def Let_def
        split: if_splits sum.splits)

declare while_not_success.simps [simp del]

subsection \<open>The confirmation poll\<close>

text \<open>\<open>while not has_tx_mined(tx_id, network): time.sleep(1)\<close>.\<close>

function while_not_mined :: "nat \<Rightarrow> string \<Rightarrow> 'p world \<Rightarrow> unit outcome \<times> 'p world" where
  "while_not_mined i tx_id w =
     (case mined w of
        [] \<Rightarrow> (Pending, w)
      | b # bs \<Rightarrow>
          (let w1 = emit i (HasTxMined tx_id b) (w\<lparr>mined := bs\<rparr>)
           in if b then (Done (), w1) else while_not_mined i tx_id (sleep i 1 w1)))"
  by pat_completeness auto
termination
  by (relation "measure (\<lambda>(i, tx_id, w). length (mined w))")
     (auto simp: emit_def sleep_def)

declare while_not_mined.simps [simp del]

subsection \<open>One chunk, all chunks\<close>

text \<open>
  The body of \<open>for payout_mapping in chunked_payouts_mapping\<close>, source lines 233 to 282.
  \<open>get_web3\<close> only opens a connection. The dictionary display reads the transaction count
  before the gas price.
\<close>

definition for_body :: "string \<Rightarrow> nat \<Rightarrow> 'p list \<Rightarrow> 'p world \<Rightarrow> string outcome \<times> 'p world" where
  "for_body from_pk i payout_mapping w =
     (let (n, w1) = getTransactionCount i w;
          (p, w2) = float_recommend_min_gas_price i w1
      in case gas_price p multiplier_1_4 of
           Inl e \<Rightarrow> (Raised e, w2)
         | Inr g \<Rightarrow>
             (let a = \<lparr>nonce = n, gas = 8000000, gasPrice = g\<rparr>;
                  (t, w3) = buildTransaction i payout_mapping a w2;
                  (sg, w4) = signTransaction i t from_pk w3
              in case while_not_success from_pk i payout_mapping
                        \<lparr>args = a, signed_tx = sg, counter = 0\<rparr> w4 of
                   (Raised e, w5) \<Rightarrow> (Raised e, w5)
                 | (Pending, w5) \<Rightarrow> (Pending, w5)
                 | (Done (tx_id, st), w5) \<Rightarrow>
                     if tx_id = [] then (Raised CannotSetMapping, w5)
                     else (case while_not_mined i tx_id w5 of
                             (Raised e, w6) \<Rightarrow> (Raised e, w6)
                           | (Pending, w6) \<Rightarrow> (Pending, w6)
                           | (Done u, w6) \<Rightarrow>
                               (Done tx_id, sleep i WAIT_TIME_BETWEEN_TXS w6))))"

text \<open>
  The \<open>for\<close> loop. \<open>tx_id\<close> is \<open>None\<close> while the variable is unbound; it keeps the value
  the last iteration gave it.
\<close>

fun for_chunks ::
  "string \<Rightarrow> nat \<Rightarrow> 'p list list \<Rightarrow> string option \<Rightarrow> 'p world
     \<Rightarrow> string option outcome \<times> 'p world" where
  "for_chunks from_pk i [] tx_id w = (Done tx_id, w)"
| "for_chunks from_pk i (payout_mapping # rest) tx_id w =
     (case for_body from_pk i payout_mapping w of
        (Done t, w') \<Rightarrow> for_chunks from_pk (Suc i) rest (Some t) w'
      | (Raised e, w') \<Rightarrow> (Raised e, w')
      | (Pending, w') \<Rightarrow> (Pending, w'))"

subsection \<open>The match records and the whole \<open>set_payouts\<close> path\<close>

text \<open>
  A \<open>CLRMatch\<close> row, with the fields this path reads and writes. \<open>amount\<close> stays of an
  arbitrary ordered type and its conversion \<open>Decimal(match.amount) * SCALE\<close> stays
  symbolic in the payout entry.
\<close>

record 'm clr_match =
  admin_address :: string
  amount :: 'm
  payout_tx :: string
  test_payout_tx :: string

record 'm payout =
  recipient :: string
  amount_times_SCALE :: 'm

text \<open>Source lines 209 to 214; \<open>order_by('amount')\<close> sorts, here keeping ties in order.\<close>

definition full_payouts_mapping :: "('m::linorder) clr_match list \<Rightarrow> 'm payout list" where
  "full_payouts_mapping unpaid_scheduled_matches =
     map (\<lambda>match. \<lparr>recipient = admin_address match, amount_times_SCALE = amount match\<rparr>)
       (sort_key amount unpaid_scheduled_matches)"

text \<open>Source lines 287 to 295: what \<open>match.save()\<close> stores of the transaction.\<close>

definition save_tx_id :: "bool \<Rightarrow> string \<Rightarrow> 'm clr_match \<Rightarrow> 'm clr_match" where
  "save_tx_id is_real_payout tx_id match =
     (if is_real_payout then match\<lparr>payout_tx := tx_id\<rparr>
      else match\<lparr>test_payout_tx := tx_id\<rparr>)"

text \<open>
  The loop at source line 285 over the same matches, in the same order. Reading an unbound
  \<open>tx_id\<close> in its first iteration would raise.
\<close>

fun update_matches ::
  "bool \<Rightarrow> string option \<Rightarrow> 'm clr_match list \<Rightarrow> error + 'm clr_match list" where
  "update_matches is_real_payout tx_id [] = Inr []"
| "update_matches is_real_payout None (match # rest) = Inl UnboundTxId"
| "update_matches is_real_payout (Some t) (match # rest) =
     Inr (map (save_tx_id is_real_payout t) (match # rest))"

text \<open>
  Source lines 208 to 295, after the prompts: the result is the saved match records.
\<close>

definition set_payouts ::
  "bool \<Rightarrow> string \<Rightarrow> ('m::linorder) clr_match list \<Rightarrow> 'm payout world
     \<Rightarrow> 'm clr_match list outcome \<times> 'm payout world" where
  "set_payouts is_real_payout from_pk unpaid_scheduled_matches w =
     (case chunks (full_payouts_mapping unpaid_scheduled_matches) 120 of
        Inl e \<Rightarrow> (Raised e, w)
      | Inr chunked_payouts_mapping \<Rightarrow>
          (case for_chunks from_pk 0 chunked_payouts_mapping None w of
             (Raised e, w') \<Rightarrow> (Raised e, w')
           | (Pending, w') \<Rightarrow> (Pending, w')
           | (Done tx_id, w') \<Rightarrow>
               (case update_matches is_real_payout tx_id
                       (sort_key amount unpaid_scheduled_matches) of
                  Inl e \<Rightarrow> (Raised e, w')
                | Inr saved \<Rightarrow> (Done saved, w'))))"

section \<open>Properties\<close>

subsection \<open>Chunking\<close>

lemma concat_slices:
  "concat (map (\<lambda>i. slice lst i (i + m)) (map (\<lambda>k. k * m) [0 ..< j])) = take (j * m) lst"
proof (induction j)
  case 0
  show ?case by simp
next
  case (Suc j)
  have "take (j * m) lst @ take m (drop (j * m) lst) = take (j * m + m) lst"
    by (simp add: take_add)
  with Suc show ?case by (simp add: slice_def add.commute)
qed

lemma ceil_div_cover: "0 < m \<Longrightarrow> (L::nat) \<le> ((L + m - 1) div m) * m"
proof -
  assume m: "0 < m"
  have "L + m - 1 = ((L + m - 1) div m) * m + (L + m - 1) mod m" by simp
  moreover have "(L + m - 1) mod m \<le> m - 1" using m
    by (metis Suc_pred' less_Suc_eq_le mod_less_divisor)
  ultimately show ?thesis using m by linarith
qed

lemma ceil_div_tight: "0 < m \<Longrightarrow> Suc k < (L + m - 1) div m \<Longrightarrow> (Suc k) * m < (L::nat)"
proof -
  assume m: "0 < m" and k: "Suc k < (L + m - 1) div m"
  then have "Suc (Suc k) \<le> (L + m - 1) div m" by simp
  then have "Suc (Suc k) * m \<le> ((L + m - 1) div m) * m" by (rule mult_le_mono1)
  also have "\<dots> \<le> L + m - 1" by simp
  finally show ?thesis using m by simp
qed

lemma chunks_pos:
  "0 < n \<Longrightarrow> chunks lst n =
     Inr (map (\<lambda>i. slice lst i (i + nat n))
            (map (\<lambda>k. k * nat n) [0 ..< (length lst + nat n - 1) div nat n]))"
  by (simp add: chunks_def range0_def)

lemma length_slice_le: "length (slice lst i (i + m)) \<le> m"
  by (simp add: slice_def)

lemma length_slice_full: "i + m \<le> length lst \<Longrightarrow> length (slice lst i (i + m)) = m"
  by (simp add: slice_def)

text \<open>
  Claim C3. For every list and every chunk size \<open>n\<close> (a positive number: a zero step makes
  \<open>range\<close> raise), \<open>chunks\<close> yields chunks whose concatenation is the list, in order,
  nothing duplicated or dropped; every chunk has at most \<open>n\<close> entries and every chunk but
  the last exactly \<open>n\<close>. A list of 250 entries with \<open>n = 120\<close> gives chunks of lengths
  120, 120, 10.
\<close>

theorem chunks_partition:
  "(0 < n \<longrightarrow>
      (\<exists>cs. chunks lst n = Inr cs \<and> concat cs = lst
          \<and> (\<forall>c \<in> set cs. length c \<le> nat n)
          \<and> (\<forall>k. Suc k < length cs \<longrightarrow> length (cs ! k) = nat n)))
   \<and> (length lst = 250 \<longrightarrow>
      (\<exists>cs. chunks lst 120 = Inr cs \<and> map length cs = [120, 120, 10]))"
proof (intro conjI impI)
  assume n: "0 < n"
  define m where "m = nat n"
  define q where "q = (length lst + m - 1) div m"
  define cs where "cs = map (\<lambda>i. slice lst i (i + m)) (map (\<lambda>k. k * m) [0 ..< q])"
  have m: "0 < m" using n by (simp add: m_def)
  have eq: "chunks lst n = Inr cs"
    using n by (simp add: chunks_pos cs_def q_def m_def)
  have "concat cs = take (q * m) lst"
    unfolding cs_def by (rule concat_slices)
  moreover have "length lst \<le> q * m"
    unfolding q_def using m by (rule ceil_div_cover)
  ultimately have cat: "concat cs = lst" by simp
  have le: "\<forall>c \<in> set cs. length c \<le> m"
    by (auto simp: cs_def length_slice_le)
  have full: "length (cs ! k) = m" if k: "Suc k < length cs" for k
  proof -
    from k have kq: "Suc k < (length lst + m - 1) div m" by (simp add: cs_def q_def)
    have "Suc k * m < length lst"
      by (rule ceil_div_tight [OF m kq])
    then have "k * m + m \<le> length lst" by simp
    moreover have "cs ! k = slice lst (k * m) (k * m + m)"
      using kq by (simp add: cs_def q_def)
    ultimately show ?thesis by (simp add: length_slice_full)
  qed
  show "\<exists>cs. chunks lst n = Inr cs \<and> concat cs = lst
          \<and> (\<forall>c \<in> set cs. length c \<le> nat n)
          \<and> (\<forall>k. Suc k < length cs \<longrightarrow> length (cs ! k) = nat n)"
    using eq cat le full unfolding m_def by blast
next
  assume L: "length lst = 250"
  have up: "[0 ..< 3] = [0, 1, 2::nat]" by (simp add: upt_rec)
  have "chunks lst 120 = Inr [slice lst 0 120, slice lst 120 240, slice lst 240 360]"
    by (simp add: chunks_pos L up)
  moreover have "map length [slice lst 0 120, slice lst 120 240, slice lst 240 360] = [120, 120, 10]"
    by (simp add: slice_def L)
  ultimately show "\<exists>cs. chunks lst 120 = Inr cs \<and> map length cs = [120, 120, 10]"
    by simp
qed

theorem chunks_partition_witness:
  "(0::int) < 120 \<and> length (replicate 250 (0::nat)) = 250
   \<and> (\<exists>cs. chunks (replicate 250 (0::nat)) 120 = Inr cs \<and> concat cs = replicate 250 0
         \<and> map length cs = [120, 120, 10])"
  using chunks_partition [of 120 "replicate 250 (0::nat)"] by auto

subsection \<open>Unfolding the collaborators\<close>

lemmas prims = emit_def sleep_def getTransactionCount_def float_recommend_min_gas_price_def
  buildTransaction_def signTransaction_def Let_def

subsection \<open>The empty batch\<close>

text \<open>
  Claim C10. With no unpaid match the payout mapping is empty, \<open>chunks\<close> yields no chunk,
  and the run ends normally with the world as it was: nothing was read from the node or the
  oracle, no transaction was built, signed or broadcast, and no record was saved.
\<close>

theorem empty_batch_is_noop:
  "chunks (full_payouts_mapping ([] :: ('m::linorder) clr_match list)) 120 = Inr []
   \<and> set_payouts is_real_payout from_pk ([] :: 'm clr_match list) w = (Done [], w)"
  by (simp add: set_payouts_def full_payouts_mapping_def chunks_def range0_def)

subsection \<open>The except block, case by case\<close>

lemma on_exception_underpriced:
  assumes "underpriced s"
  shows "on_exception from_pk i pm s st w =
     (case gas_price (prices w (price_calls w)) multiplier_1_6 of
        Inl e \<Rightarrow> (Raised e, w\<lparr>price_calls := Suc (price_calls w),
                      trace := trace w @ [(i, Sleep 15), (i, RecommendGasPrice (prices w (price_calls w)))]\<rparr>)
      | Inr g \<Rightarrow>
         (let t = \<lparr>tx_nonce = nonce (args st), tx_gas = gas (args st), tx_gasPrice = g, tx_data = pm\<rparr>
          in (Done \<lparr>args = (args st)\<lparr>gasPrice := g\<rparr>, signed_tx = Signed t from_pk, counter = Suc (counter st)\<rparr>,
              w\<lparr>price_calls := Suc (price_calls w),
                trace := trace w @ [(i, Sleep 15), (i, RecommendGasPrice (prices w (price_calls w))),
                   (i, BuildTransaction t), (i, SignTransaction (Signed t from_pk))]\<rparr>)))"
  using assms by (simp add: on_exception_def prims WAIT_TIME_BETWEEN_TXS_def split: sum.splits)

lemma on_exception_nonce:
  assumes "\<not> underpriced s" "nonce_too_low s"
  shows "on_exception from_pk i pm s st w =
         (let n = counts w (count_calls w);
              t = \<lparr>tx_nonce = n, tx_gas = gas (args st), tx_gasPrice = gasPrice (args st), tx_data = pm\<rparr>
          in (Done \<lparr>args = (args st)\<lparr>nonce := n\<rparr>, signed_tx = Signed t from_pk, counter = Suc (counter st)\<rparr>,
              w\<lparr>count_calls := Suc (count_calls w),
                trace := trace w @ [(i, Sleep 15), (i, GetTransactionCount n),
                   (i, BuildTransaction t), (i, SignTransaction (Signed t from_pk))]\<rparr>))"
  using assms by (simp add: on_exception_def prims WAIT_TIME_BETWEEN_TXS_def)

lemma on_exception_fatal:
  assumes "\<not> underpriced s" "\<not> nonce_too_low s"
  shows "on_exception from_pk i pm s st w = (Raised (BroadcastError s), w)"
  using assms by (simp add: on_exception_def)

subsection \<open>One iteration of each loop\<close>

lemma wns_Nil:
  "sends w = [] \<Longrightarrow> while_not_success from_pk i pm st w = (Pending, w)"
  by (subst while_not_success.simps) simp

lemma wns_Inr:
  "sends w = Inr t # rs \<Longrightarrow> while_not_success from_pk i pm st w =
     (Done (t, st), emit i (SendRawTransaction (signed_tx st) (Inr t)) (w\<lparr>sends := rs\<rparr>))"
  by (subst while_not_success.simps) simp

lemma wns_Inl:
  "sends w = Inl s # rs \<Longrightarrow> while_not_success from_pk i pm st w =
     (case on_exception from_pk i pm s st
             (emit i (SendRawTransaction (signed_tx st) (Inl s)) (w\<lparr>sends := rs\<rparr>)) of
        (Done st', w2) \<Rightarrow> while_not_success from_pk i pm st' w2
      | (Raised e, w2) \<Rightarrow> (Raised e, w2)
      | (Pending, w2) \<Rightarrow> (Pending, w2))"
  by (subst while_not_success.simps) simp

lemma wnm_Nil: "mined w = [] \<Longrightarrow> while_not_mined i t w = (Pending, w)"
  by (subst while_not_mined.simps) simp

lemma wnm_True:
  "mined w = True # bs \<Longrightarrow> while_not_mined i t w = (Done (), emit i (HasTxMined t True) (w\<lparr>mined := bs\<rparr>))"
  by (subst while_not_mined.simps) simp

lemma wnm_False:
  "mined w = False # bs \<Longrightarrow> while_not_mined i t w =
     while_not_mined i t (sleep i 1 (emit i (HasTxMined t False) (w\<lparr>mined := bs\<rparr>)))"
  by (subst while_not_mined.simps) simp

lemma py_int_error: "py_int x = Inl e \<Longrightarrow> e = FloatNaN \<or> e = FloatOverflow"
  by (cases x) auto

lemma gas_price_error: "gas_price p m = Inl e \<Longrightarrow> e = FloatNaN \<or> e = FloatOverflow"
  unfolding gas_price_def by (rule py_int_error)

text \<open>What the except block leaves alone, and what it appends.\<close>

lemma on_exception_frame:
  assumes "on_exception from_pk i pm s st w = (out, w')"
  shows "sends w' = sends w \<and> mined w' = mined w \<and> prices w' = prices w \<and> counts w' = counts w
       \<and> price_calls w \<le> price_calls w'
       \<and> (\<exists>ext. trace w' = trace w @ ext
             \<and> (\<forall>ev \<in> set ext. fst ev = i \<and> (\<forall>sg r. snd ev \<noteq> SendRawTransaction sg r)))
       \<and> out \<noteq> Pending
       \<and> (\<not> underpriced s \<and> \<not> nonce_too_low s \<longrightarrow> out = Raised (BroadcastError s) \<and> w' = w)
       \<and> (\<forall>s'. out = Raised (BroadcastError s') \<longrightarrow> s' = s \<and> \<not> underpriced s \<and> \<not> nonce_too_low s)"
proof (cases "underpriced s")
  case True
  then show ?thesis using assms
    by (auto simp: on_exception_underpriced Let_def split: sum.splits dest: gas_price_error)
next
  case False
  show ?thesis
  proof (cases "nonce_too_low s")
    case True
    with False show ?thesis using assms
      by (auto simp: on_exception_nonce Let_def)
  next
    case F2: False
    with False show ?thesis using assms
      by (auto simp: on_exception_fatal)
  qed
qed

end
